theory Spec2Isabelle
  imports Main
begin

section \<open>Host-language values, errors and outcomes\<close>

text \<open>
  The storage package of the upload service (storage.go, factory.go, minio.go, azure.go)
  is embedded function by function. A Go \<^verbatim>\<open>string\<close> is a byte sequence, here a
  \<^typ>\<open>string\<close>. A value of type \<^verbatim>\<open>interface{}\<close> stored in a property bag is
  one of the dynamic types below; \<open>AInt\<close> stands for every dynamic type that is neither
  a string nor a boolean, \<open>ANil\<close> for an explicitly stored nil.
\<close>

datatype any = AString string | ABool bool | AInt int | ANil

text \<open>
  The comma-ok type assertions \<^verbatim>\<open>v, ok := m[k].(string)\<close> and
  \<^verbatim>\<open>v, ok := m[k].(bool)\<close>. Reading an absent key yields the nil interface, on
  which every assertion fails with the zero value.
\<close>

definition assert_string :: "any option \<Rightarrow> string \<times> bool" where
  "assert_string x = (case x of Some (AString s) \<Rightarrow> (s, True) | _ \<Rightarrow> ('''', False))"

definition assert_bool :: "any option \<Rightarrow> bool \<times> bool" where
  "assert_bool x = (case x of Some (ABool b) \<Rightarrow> (b, True) | _ \<Rightarrow> (False, False))"

text \<open>
  Errors. The three sentinels of storage.go are distinct values; \<open>Errorf\<close> is
  \<^verbatim>\<open>fmt.Errorf\<close> without a wrapped error (the formatted message is kept),
  \<open>Wrapf\<close> is \<^verbatim>\<open>fmt.Errorf\<close> with the verb \<^verbatim>\<open>%w\<close> (the format string and the
  wrapped error are kept), and \<open>SdkError\<close> is an error produced by an external library.
\<close>

datatype error =
    ErrStorageNotConfigured
  | ErrInvalidConfig
  | ErrStorageUnavailable
  | Errorf string
  | Wrapf string error
  | SdkError string

text \<open>\<^verbatim>\<open>errors.Is\<close>: the target is the error itself or is reached by unwrapping.\<close>

fun errors_Is :: "error \<Rightarrow> error \<Rightarrow> bool" where
  "errors_Is (Wrapf m e) t = (Wrapf m e = t \<or> errors_Is e t)"
| "errors_Is e t = (e = t)"

text \<open>A call either returns or panics (a run-time panic unwinds through every caller).\<close>

datatype 'a outcome = Returns 'a | Panics string

section \<open>storage.go: providers, Config\<close>

type_synonym Provider = string

definition MinIO :: Provider where "MinIO = ''minio''"
definition Azure :: Provider where "Azure = ''azure''"
definition Disk :: Provider where "Disk = ''disk''"
definition Memory :: Provider where "Memory = ''memory''"

text \<open>\<open>Properties\<close> is a Go map, which may be nil (\<open>None\<close>).\<close>

record Config =
  Provider :: Provider
  Properties :: "(string \<rightharpoonup> any) option"

section \<open>External collaborators\<close>

text \<open>
  The AWS SDK, the Azure store, the upload-protocol library and the Unicode tables are
  not part of the package. Their data is kept as far as the package builds it, and their
  fallible operations are parameters (record \<open>sdk\<close> below).
\<close>

record LoadOptions =
  Region :: string
  EndpointURL :: string
  HostnameImmutable :: bool
  Credentials :: "string \<times> string \<times> string"

text \<open>\<^verbatim>\<open>s3.Options\<close>, as far as the package touches it; a client is its options.\<close>

record s3_Options =
  awsCfg :: LoadOptions
  UsePathStyle :: bool

type_synonym s3_Client = s3_Options

definition s3_NewFromConfig :: "LoadOptions \<Rightarrow> (s3_Options \<Rightarrow> s3_Options) list \<Rightarrow> s3_Client" where
  "s3_NewFromConfig cfg optFns =
     fold (\<lambda>fn opts. fn opts) optFns \<lparr>awsCfg = cfg, UsePathStyle = False\<rparr>"

record AzConfig =
  AccountName :: string
  AccountKey :: string
  BlobAccessTier :: string
  ContainerName :: string
  ContainerAccessType :: string
  Endpoint :: string

datatype AzService = AzService AzConfig

datatype DataStore = S3Store string s3_Client | AzureStore AzService

datatype Locker = MemoryLocker

text \<open>
  The composer of the protocol library, at the granularity the package uses it: a core
  data store and a locker, both absent in a new composer. Composers live in a store of
  their own and are referred to by address, since the package holds them by pointer.
\<close>

record StoreComposer =
  Core :: "DataStore option"
  Locker :: "Locker option"

definition empty_composer :: StoreComposer where
  "empty_composer = \<lparr>Core = None, Locker = None\<rparr>"

record tusd_Config =
  BasePath :: string
  StoreComposer :: "nat option"
  NotifyCompleteUploads :: bool
  DisableDownload :: bool

datatype Handler = Handler tusd_Config

text \<open>The calls that leave the package, in the order they are made.\<close>

datatype call =
    CallLoadDefaultConfig LoadOptions
  | CallHeadBucket s3_Client string
  | CallCreateBucket s3_Client string
  | CallNewAzureService AzConfig
  | CallNewHandler tusd_Config

text \<open>
  The answers of the outside world: each fallible external operation answers with an
  error or with none, and the answer may depend on every call made before it. The
  external operations are taken to return. \<open>unicode_ToLower\<close> is the Unicode case
  mapping of the standard library on strings that are not pure ASCII.
\<close>

record sdk =
  LoadDefaultConfig :: "call list \<Rightarrow> LoadOptions \<Rightarrow> error option"
  HeadBucket :: "call list \<Rightarrow> s3_Client \<Rightarrow> string \<Rightarrow> error option"
  CreateBucket :: "call list \<Rightarrow> s3_Client \<Rightarrow> string \<Rightarrow> error option"
  NewAzureService :: "call list \<Rightarrow> AzConfig \<Rightarrow> error option"
  NewHandler :: "call list \<Rightarrow> tusd_Config \<Rightarrow> error option"
  unicode_ToLower :: "string \<Rightarrow> string"

text \<open>The part of the process state the package shares: the call log and the composers.\<close>

record sys =
  calls :: "call list"
  composers :: "StoreComposer list"

definition sys0 :: sys where
  "sys0 = \<lparr>calls = [], composers = []\<rparr>"

definition record_call :: "call \<Rightarrow> sys \<Rightarrow> sys" where
  "record_call c st = st\<lparr>calls := calls st @ [c]\<rparr>"

text \<open>\<^verbatim>\<open>tusd.NewStoreComposer()\<close>: a new empty composer at a fresh address.\<close>

definition NewStoreComposer :: "sys \<Rightarrow> nat \<times> sys" where
  "NewStoreComposer st =
     (length (composers st), st\<lparr>composers := composers st @ [empty_composer]\<rparr>)"

text \<open>\<^verbatim>\<open>locker.UseIn(composer)\<close> and \<^verbatim>\<open>store.UseIn(composer)\<close> write through the pointer.\<close>

definition Locker_UseIn :: "Locker \<Rightarrow> nat \<Rightarrow> sys \<Rightarrow> sys" where
  "Locker_UseIn l p st =
     st\<lparr>composers := (composers st)[p := (composers st ! p)\<lparr>Locker := Some l\<rparr>]\<rparr>"

definition Store_UseIn :: "DataStore \<Rightarrow> nat \<Rightarrow> sys \<Rightarrow> sys" where
  "Store_UseIn d p st =
     st\<lparr>composers := (composers st)[p := (composers st ! p)\<lparr>Core := Some d\<rparr>]\<rparr>"

section \<open>minio.go: the S3-compatible backend\<close>

record S3Config =
  Endpoint :: string
  Bucket :: string
  Region :: string
  AccessKey :: string
  SecretKey :: string
  UseSSL :: bool
  PathStyle :: bool
  DisableSSL :: bool

text \<open>The zero value of the struct, as a field of a newly constructed instance has it.\<close>

definition S3Config_zero :: S3Config where
  "S3Config_zero = \<lparr>Endpoint = '''', Bucket = '''', Region = '''', AccessKey = '''',
     SecretKey = '''', UseSSL = False, PathStyle = False, DisableSSL = False\<rparr>"

record MinIOStorage =
  config :: S3Config
  s3Client :: "s3_Client option"
  composer :: "nat option"
  initialized :: bool

definition NewMinIOStorage :: "sys \<Rightarrow> MinIOStorage \<times> sys" where
  "NewMinIOStorage st =
     (let (p, st') = NewStoreComposer st
      in (\<lparr>config = S3Config_zero, s3Client = None, composer = Some p,
           initialized = False\<rparr>, st'))"

text \<open>The default values at the head of \<^verbatim>\<open>MinIOStorage.Initialize\<close>.\<close>

definition S3Config_defaults :: S3Config where
  "S3Config_defaults = \<lparr>Endpoint = ''localhost:9000'', Bucket = ''uploads'',
     Region = ''us-east-1'', AccessKey = ''minioadmin'', SecretKey = ''minioadmin'',
     UseSSL = False, PathStyle = True, DisableSSL = True\<rparr>"

text \<open>
  One override of a string field: taken when the assertion succeeds and the string is not
  empty. One override of a boolean field: taken when the assertion succeeds.
\<close>

definition override_string :: "(string \<rightharpoonup> any) \<Rightarrow> string \<Rightarrow> string \<Rightarrow> string" where
  "override_string props key dflt =
     (let (v, ok) = assert_string (props key) in if ok \<and> v \<noteq> '''' then v else dflt)"

definition override_bool :: "(string \<rightharpoonup> any) \<Rightarrow> string \<Rightarrow> bool \<Rightarrow> bool" where
  "override_bool props key dflt =
     (let (v, ok) = assert_bool (props key) in if ok then v else dflt)"

text \<open>The override block of \<^verbatim>\<open>MinIOStorage.Initialize\<close>, skipped for a nil map.\<close>

definition S3Config_merge :: "Config \<Rightarrow> S3Config" where
  "S3Config_merge cfg =
     (case Properties cfg of
        None \<Rightarrow> S3Config_defaults
      | Some props \<Rightarrow>
          \<lparr>Endpoint = override_string props ''endpoint'' (S3Config.Endpoint S3Config_defaults),
           Bucket = override_string props ''bucket'' (Bucket S3Config_defaults),
           Region = override_string props ''region'' (S3Config.Region S3Config_defaults),
           AccessKey = override_string props ''accessKey'' (AccessKey S3Config_defaults),
           SecretKey = override_string props ''secretKey'' (SecretKey S3Config_defaults),
           UseSSL = override_bool props ''useSSL'' (UseSSL S3Config_defaults),
           PathStyle = override_bool props ''pathStyle'' (PathStyle S3Config_defaults),
           DisableSSL = override_bool props ''disableSSL'' (DisableSSL S3Config_defaults)\<rparr>)"

text \<open>
  The URL handed to the endpoint resolver. The source tests
  \<^verbatim>\<open>len(minioURL) < 4 || (minioURL[:4] != "http" && minioURL[:5] != "https")\<close>;
  the slice \<^verbatim>\<open>minioURL[:5]\<close> is evaluated only when the first four bytes are not
  \<^verbatim>\<open>http\<close>, and panics when the endpoint has exactly four bytes.
\<close>

definition minio_url :: "S3Config \<Rightarrow> string outcome" where
  "minio_url c =
     (let protocol = (if UseSSL c then ''https'' else ''http'');
          minioURL = S3Config.Endpoint c;
          prefixed = protocol @ ''://'' @ S3Config.Endpoint c
      in if length minioURL < 4 then Returns prefixed
         else if take 4 minioURL \<noteq> ''http'' then
           (if length minioURL < 5 then Panics ''slice bounds out of range [:5] with length 4''
            else if take 5 minioURL \<noteq> ''https'' then Returns prefixed
            else Returns minioURL)
         else Returns minioURL)"

text \<open>
  The bucket check of \<^verbatim>\<open>Initialize\<close>: \<^verbatim>\<open>HeadBucket\<close>, and on any error of it
  \<^verbatim>\<open>CreateBucket\<close>, whose error is returned wrapped.
\<close>

definition verify_bucket :: "sdk \<Rightarrow> s3_Client \<Rightarrow> string \<Rightarrow> sys \<Rightarrow> error option \<times> sys" where
  "verify_bucket w client bucket st =
     (let headErr = HeadBucket w (calls st) client bucket;
          st1 = record_call (CallHeadBucket client bucket) st
      in case headErr of
           None \<Rightarrow> (None, st1)
         | Some _ \<Rightarrow>
             (let createErr = CreateBucket w (calls st1) client bucket;
                  st2 = record_call (CallCreateBucket client bucket) st1
              in case createErr of
                   Some err \<Rightarrow> (Some (Wrapf ''error creating bucket: %w'' err), st2)
                 | None \<Rightarrow> (None, st2)))"

text \<open>
  The composer assembly shared by both backends: a new composer, the in-memory locker
  used in it, then the data store.
\<close>

definition assemble_composer :: "DataStore \<Rightarrow> sys \<Rightarrow> nat \<times> sys" where
  "assemble_composer store st =
     (let locker = MemoryLocker;
          (p, st1) = NewStoreComposer st;
          st2 = Locker_UseIn locker p st1;
          st3 = Store_UseIn store p st2
      in (p, st3))"

text \<open>
  The options handed to \<^verbatim>\<open>config.LoadDefaultConfig\<close>: the region, the resolver that
  answers every lookup with the URL, and the static credentials.
\<close>

definition awsOpts_of :: "S3Config \<Rightarrow> string \<Rightarrow> LoadOptions" where
  "awsOpts_of s3Cfg minioURL =
     \<lparr>LoadOptions.Region = S3Config.Region s3Cfg, EndpointURL = minioURL,
      HostnameImmutable = True,
      Credentials = (AccessKey s3Cfg, SecretKey s3Cfg, '''')\<rparr>"

definition MinIOStorage_Initialize ::
  "sdk \<Rightarrow> Config \<Rightarrow> MinIOStorage \<times> sys \<Rightarrow> error option outcome \<times> MinIOStorage \<times> sys" where
  "MinIOStorage_Initialize w cfg inst =
     (let (s, st) = inst;
          s3Cfg = S3Config_merge cfg;
          s1 = s\<lparr>config := s3Cfg\<rparr>
      in case minio_url s3Cfg of
           Panics msg \<Rightarrow> (Panics msg, s1, st)
         | Returns minioURL \<Rightarrow>
             (let awsOpts = awsOpts_of s3Cfg minioURL;
                  loadErr = LoadDefaultConfig w (calls st) awsOpts;
                  st1 = record_call (CallLoadDefaultConfig awsOpts) st
              in case loadErr of
                   Some err \<Rightarrow>
                     (Returns (Some (Wrapf ''failed to load AWS SDK config: %w'' err)), s1, st1)
                 | None \<Rightarrow>
                     (let s3c = s3_NewFromConfig awsOpts [\<lambda>opts. opts\<lparr>UsePathStyle := True\<rparr>];
                          s2 = s1\<lparr>s3Client := Some s3c\<rparr>;
                          (bucketErr, st2) = verify_bucket w s3c (Bucket s3Cfg) st1
                      in case bucketErr of
                           Some err \<Rightarrow> (Returns (Some err), s2, st2)
                         | None \<Rightarrow>
                             (let store = S3Store (Bucket s3Cfg) s3c;
                                  (p, st3) = assemble_composer store st2
                              in (Returns None,
                                  s2\<lparr>composer := Some p, initialized := True\<rparr>, st3)))))"

text \<open>\<^verbatim>\<open>tusd.NewHandler(config)\<close> with its call logged.\<close>

definition tusd_NewHandler ::
  "sdk \<Rightarrow> tusd_Config \<Rightarrow> sys \<Rightarrow> (Handler option \<times> error option) \<times> sys" where
  "tusd_NewHandler w c st =
     (let st1 = record_call (CallNewHandler c) st
      in case NewHandler w (calls st) c of
           Some err \<Rightarrow> ((None, Some (Wrapf ''error creating handler: %w'' err)), st1)
         | None \<Rightarrow> ((Some (Handler c), None), st1))"

definition MinIOStorage_GetHandler ::
  "sdk \<Rightarrow> string \<Rightarrow> MinIOStorage \<times> sys \<Rightarrow> (Handler option \<times> error option) \<times> sys" where
  "MinIOStorage_GetHandler w basePath inst =
     (let (s, st) = inst
      in if \<not> initialized s then ((None, Some ErrStorageNotConfigured), st)
         else tusd_NewHandler w
                \<lparr>BasePath = basePath, StoreComposer = composer s,
                 NotifyCompleteUploads = True, DisableDownload = False\<rparr> st)"

definition MinIOStorage_GetProvider :: "MinIOStorage \<Rightarrow> Provider" where
  "MinIOStorage_GetProvider s = MinIO"

definition MinIOStorage_GetStoreComposer :: "MinIOStorage \<Rightarrow> nat option" where
  "MinIOStorage_GetStoreComposer s = composer s"

section \<open>azure.go: the Azure Blob backend\<close>

record AzureConfig =
  AccountName :: string
  AccountKey :: string
  ContainerName :: string
  Endpoint :: string
  BlobAccessTier :: string
  ContainerAccessType :: string

definition AzureConfig_zero :: AzureConfig where
  "AzureConfig_zero = \<lparr>AccountName = '''', AccountKey = '''', ContainerName = '''',
     Endpoint = '''', BlobAccessTier = '''', ContainerAccessType = ''''\<rparr>"

record AzureStorage =
  config :: AzureConfig
  service :: "AzService option"
  composer :: "nat option"
  initialized :: bool

definition NewAzureStorage :: "sys \<Rightarrow> AzureStorage \<times> sys" where
  "NewAzureStorage st =
     (let (p, st') = NewStoreComposer st
      in (\<lparr>config = AzureConfig_zero, service = None, composer = Some p,
           initialized = False\<rparr>, st'))"

text \<open>The default values at the head of \<^verbatim>\<open>AzureStorage.Initialize\<close>.\<close>

definition AzureConfig_defaults :: AzureConfig where
  "AzureConfig_defaults = AzureConfig_zero\<lparr>ContainerName := ''uploads'',
     ContainerAccessType := ''private''\<rparr>"

text \<open>The override block of \<^verbatim>\<open>AzureStorage.Initialize\<close>, skipped for a nil map.\<close>

definition AzureConfig_merge :: "Config \<Rightarrow> AzureConfig" where
  "AzureConfig_merge cfg =
     (case Properties cfg of
        None \<Rightarrow> AzureConfig_defaults
      | Some props \<Rightarrow>
          \<lparr>AccountName = override_string props ''accountName'' (AccountName AzureConfig_defaults),
           AccountKey = override_string props ''accountKey'' (AccountKey AzureConfig_defaults),
           ContainerName =
             override_string props ''containerName'' (ContainerName AzureConfig_defaults),
           Endpoint = override_string props ''endpoint'' (Endpoint AzureConfig_defaults),
           BlobAccessTier =
             override_string props ''blobAccessTier'' (BlobAccessTier AzureConfig_defaults),
           ContainerAccessType =
             override_string props ''containerAccessType''
               (ContainerAccessType AzureConfig_defaults)\<rparr>)"

text \<open>The \<^verbatim>\<open>azurestore.AzConfig\<close> built from the merged configuration.\<close>

definition AzConfig_of :: "AzureConfig \<Rightarrow> AzConfig" where
  "AzConfig_of azureCfg =
     (let azConfig = \<lparr>AzConfig.AccountName = AccountName azureCfg,
            AzConfig.AccountKey = AccountKey azureCfg,
            AzConfig.BlobAccessTier = BlobAccessTier azureCfg,
            AzConfig.ContainerName = ContainerName azureCfg,
            AzConfig.ContainerAccessType = ContainerAccessType azureCfg,
            AzConfig.Endpoint = ''''\<rparr>
      in if Endpoint azureCfg \<noteq> '''' then azConfig\<lparr>AzConfig.Endpoint := Endpoint azureCfg\<rparr>
         else azConfig)"

definition AzureStorage_Initialize ::
  "sdk \<Rightarrow> Config \<Rightarrow> AzureStorage \<times> sys \<Rightarrow> error option outcome \<times> AzureStorage \<times> sys" where
  "AzureStorage_Initialize w cfg inst =
     (let (s, st) = inst;
          azureCfg = AzureConfig_merge cfg
      in if AccountName azureCfg = '''' then
           (Returns (Some (Wrapf ''azure account name is required: %w'' ErrInvalidConfig)), s, st)
         else if AccountKey azureCfg = '''' then
           (Returns (Some (Wrapf ''azure account key is required: %w'' ErrInvalidConfig)), s, st)
         else
           (let s1 = s\<lparr>config := azureCfg\<rparr>;
                azConfig = AzConfig_of azureCfg;
                svcErr = NewAzureService w (calls st) azConfig;
                st1 = record_call (CallNewAzureService azConfig) st
            in case svcErr of
                 Some err \<Rightarrow>
                   (Returns (Some (Wrapf ''error creating Azure service: %w'' err)), s1, st1)
               | None \<Rightarrow>
                   (let svc = AzService azConfig;
                        store = AzureStore svc;
                        (p, st2) = assemble_composer store st1
                    in (Returns None,
                        s1\<lparr>composer := Some p, service := Some svc, initialized := True\<rparr>,
                        st2))))"

definition AzureStorage_GetHandler ::
  "sdk \<Rightarrow> string \<Rightarrow> AzureStorage \<times> sys \<Rightarrow> (Handler option \<times> error option) \<times> sys" where
  "AzureStorage_GetHandler w basePath inst =
     (let (s, st) = inst
      in if \<not> initialized s then ((None, Some ErrStorageNotConfigured), st)
         else tusd_NewHandler w
                \<lparr>BasePath = basePath, StoreComposer = composer s,
                 NotifyCompleteUploads = True, DisableDownload = False\<rparr> st)"

definition AzureStorage_GetProvider :: "AzureStorage \<Rightarrow> Provider" where
  "AzureStorage_GetProvider s = Azure"

definition AzureStorage_GetStoreComposer :: "AzureStorage \<Rightarrow> nat option" where
  "AzureStorage_GetStoreComposer s = composer s"

section \<open>storage.go: the Storage interface and the Registry\<close>

text \<open>
  A value of the interface \<^verbatim>\<open>Storage\<close> is one of the two implementations. The
  registry holds its instances by pointer; here it holds them by value and a call that
  mutates an instance returns the registry with the instance replaced under the key it
  was fetched by.
\<close>

datatype Storage = OfMinIO MinIOStorage | OfAzure AzureStorage

fun Storage_Initialize ::
  "sdk \<Rightarrow> Config \<Rightarrow> Storage \<times> sys \<Rightarrow> error option outcome \<times> Storage \<times> sys" where
  "Storage_Initialize w cfg (OfMinIO s, st) =
     (let (r, s', st') = MinIOStorage_Initialize w cfg (s, st) in (r, OfMinIO s', st'))"
| "Storage_Initialize w cfg (OfAzure s, st) =
     (let (r, s', st') = AzureStorage_Initialize w cfg (s, st) in (r, OfAzure s', st'))"

fun Storage_GetHandler ::
  "sdk \<Rightarrow> string \<Rightarrow> Storage \<times> sys \<Rightarrow> (Handler option \<times> error option) \<times> sys" where
  "Storage_GetHandler w basePath (OfMinIO s, st) = MinIOStorage_GetHandler w basePath (s, st)"
| "Storage_GetHandler w basePath (OfAzure s, st) = AzureStorage_GetHandler w basePath (s, st)"

fun Storage_GetProvider :: "Storage \<Rightarrow> Provider" where
  "Storage_GetProvider (OfMinIO s) = MinIOStorage_GetProvider s"
| "Storage_GetProvider (OfAzure s) = AzureStorage_GetProvider s"

fun Storage_GetStoreComposer :: "Storage \<Rightarrow> nat option" where
  "Storage_GetStoreComposer (OfMinIO s) = MinIOStorage_GetStoreComposer s"
| "Storage_GetStoreComposer (OfAzure s) = AzureStorage_GetStoreComposer s"

record Registry =
  providers :: "Provider \<rightharpoonup> Storage"

definition NewRegistry :: Registry where
  "NewRegistry = \<lparr>providers = Map.empty\<rparr>"

definition Register :: "Provider \<Rightarrow> Storage \<Rightarrow> Registry \<Rightarrow> Registry" where
  "Register provider storage r = r\<lparr>providers := (providers r)(provider \<mapsto> storage)\<rparr>"

definition Get :: "Registry \<Rightarrow> Provider \<Rightarrow> Storage option \<times> error option" where
  "Get r provider =
     (case providers r provider of
        Some storage \<Rightarrow> (Some storage, None)
      | None \<Rightarrow> (None, Some (Errorf (''storage provider '' @ provider @ '' not found''))))"

definition NewStorageFromConfig ::
  "sdk \<Rightarrow> Config \<Rightarrow> Registry \<times> sys
     \<Rightarrow> (Storage option \<times> error option) outcome \<times> Registry \<times> sys" where
  "NewStorageFromConfig w cfg rs =
     (let (r, st) = rs
      in case Get r (Provider cfg) of
           (_, Some err) \<Rightarrow> (Returns (None, Some err), r, st)
         | (None, None) \<Rightarrow> (Panics ''nil pointer dereference'', r, st)
         | (Some storage, None) \<Rightarrow>
             (case Storage_Initialize w cfg (storage, st) of
                (Panics msg, storage', st') \<Rightarrow>
                  (Panics msg, Register (Provider cfg) storage' r, st')
              | (Returns (Some err), storage', st') \<Rightarrow>
                  (Returns (None, Some (Wrapf ''failed to initialize storage: %w'' err)),
                   Register (Provider cfg) storage' r, st')
              | (Returns None, storage', st') \<Rightarrow>
                  (Returns (Some storage', None), Register (Provider cfg) storage' r, st')))"

section \<open>factory.go: the Factory\<close>

text \<open>The process environment; \<^verbatim>\<open>os.Getenv\<close> yields the empty string for an unset name.\<close>

type_synonym environ = "string \<rightharpoonup> string"

definition os_Getenv :: "environ \<Rightarrow> string \<Rightarrow> string" where
  "os_Getenv env key = (case env key of None \<Rightarrow> '''' | Some v \<Rightarrow> v)"

text \<open>
  \<^verbatim>\<open>strings.ToLower\<close>: on a string of ASCII bytes the letters A to Z are mapped to
  a to z and every other byte is kept; any other string goes through the Unicode mapping.
\<close>

definition is_ascii :: "char \<Rightarrow> bool" where
  "is_ascii c = ((of_char c :: nat) < 128)"

definition ascii_lower :: "char \<Rightarrow> char" where
  "ascii_lower c =
     (let n = (of_char c :: nat) in if 65 \<le> n \<and> n \<le> 90 then char_of (n + 32) else c)"

definition strings_ToLower :: "sdk \<Rightarrow> string \<Rightarrow> string" where
  "strings_ToLower w s =
     (if list_all is_ascii s then map ascii_lower s else unicode_ToLower w s)"

definition getEnv :: "environ \<Rightarrow> string \<Rightarrow> string \<Rightarrow> string" where
  "getEnv env key defaultValue =
     (let v = os_Getenv env key in if v = '''' then defaultValue else v)"

definition getEnvBool :: "sdk \<Rightarrow> environ \<Rightarrow> string \<Rightarrow> bool \<Rightarrow> bool" where
  "getEnvBool w env key defaultValue =
     (let v = os_Getenv env key
      in if v = '''' then defaultValue
         else strings_ToLower w v = ''true'' \<or> strings_ToLower w v = ''yes''
              \<or> strings_ToLower w v = ''1'' \<or> strings_ToLower w v = ''on'')"

record Factory =
  registry :: Registry

definition NewFactory :: "sys \<Rightarrow> Factory \<times> sys" where
  "NewFactory st =
     (let r0 = NewRegistry;
          (m, st1) = NewMinIOStorage st;
          r1 = Register MinIO (OfMinIO m) r0;
          (a, st2) = NewAzureStorage st1;
          r2 = Register Azure (OfAzure a) r1
      in (\<lparr>registry = r2\<rparr>, st2))"

text \<open>
  The first part of \<^verbatim>\<open>CreateFromEnv\<close>: the provider selector and the Config built
  from the environment, or the error of the default branch of the switch.
\<close>

definition CreateFromEnv_config :: "sdk \<Rightarrow> environ \<Rightarrow> error + Config" where
  "CreateFromEnv_config w env =
     (let storageType0 = os_Getenv env ''STORAGE_TYPE'';
          storageType = (if storageType0 = '''' then MinIO else storageType0);
          provider = strings_ToLower w storageType
      in if provider = MinIO then
           Inr \<lparr>Provider = provider, Properties = Some (Map.empty
             (''endpoint'' \<mapsto> AString (getEnv env ''MINIO_ENDPOINT'' ''localhost:9000''),
              ''bucket'' \<mapsto> AString (getEnv env ''MINIO_BUCKET'' ''uploads''),
              ''region'' \<mapsto> AString (getEnv env ''MINIO_REGION'' ''us-east-1''),
              ''accessKey'' \<mapsto> AString (getEnv env ''MINIO_ACCESS_KEY'' ''minioadmin''),
              ''secretKey'' \<mapsto> AString (getEnv env ''MINIO_SECRET_KEY'' ''minioadmin''),
              ''useSSL'' \<mapsto> ABool (getEnvBool w env ''MINIO_USE_SSL'' False),
              ''pathStyle'' \<mapsto> ABool True,
              ''disableSSL'' \<mapsto> ABool (\<not> getEnvBool w env ''MINIO_USE_SSL'' False)))\<rparr>
         else if provider = Azure then
           Inr \<lparr>Provider = provider, Properties = Some (Map.empty
             (''accountName'' \<mapsto> AString (getEnv env ''AZURE_STORAGE_ACCOUNT'' ''''),
              ''accountKey'' \<mapsto> AString (getEnv env ''AZURE_STORAGE_KEY'' ''''),
              ''containerName'' \<mapsto> AString (getEnv env ''AZURE_STORAGE_CONTAINER'' ''uploads''),
              ''endpoint'' \<mapsto> AString (getEnv env ''AZURE_STORAGE_ENDPOINT'' ''''),
              ''blobAccessTier'' \<mapsto> AString (getEnv env ''AZURE_BLOB_ACCESS_TIER'' ''''),
              ''containerAccessType'' \<mapsto>
                 AString (getEnv env ''AZURE_CONTAINER_ACCESS_TYPE'' ''private'')))\<rparr>
         else Inl (Errorf (''unsupported storage provider: '' @ provider)))"

definition CreateFromEnv ::
  "sdk \<Rightarrow> environ \<Rightarrow> Factory \<times> sys
     \<Rightarrow> (Storage option \<times> error option) outcome \<times> Factory \<times> sys" where
  "CreateFromEnv w env fs =
     (let (f, st) = fs
      in case CreateFromEnv_config w env of
           Inl err \<Rightarrow> (Returns (None, Some err), f, st)
         | Inr cfg \<Rightarrow>
             (let (res, r', st') = NewStorageFromConfig w cfg (registry f, st)
              in (res, f\<lparr>registry := r'\<rparr>, st')))"

definition CreateFromConfig ::
  "sdk \<Rightarrow> Config \<Rightarrow> Factory \<times> sys
     \<Rightarrow> (Storage option \<times> error option) outcome \<times> Factory \<times> sys" where
  "CreateFromConfig w cfg fs =
     (let (f, st) = fs;
          (res, r', st') = NewStorageFromConfig w cfg (registry f, st)
      in (res, f\<lparr>registry := r'\<rparr>, st'))"

text \<open>
  The default table of the external-interface section of the specification, for the
  S3-compatible provider: six entries.
\<close>

definition spec_minio_default_table :: "string \<rightharpoonup> any" where
  "spec_minio_default_table = Map.empty
     (''endpoint'' \<mapsto> AString ''localhost:9000'',
      ''bucket'' \<mapsto> AString ''uploads'',
      ''region'' \<mapsto> AString ''us-east-1'',
      ''accessKey'' \<mapsto> AString ''minioadmin'',
      ''secretKey'' \<mapsto> AString ''minioadmin'',
      ''useSSL'' \<mapsto> ABool False)"

section \<open>Notions used by the properties\<close>

text \<open>The six entries of the specification's table and the two the Factory adds.\<close>

definition minio_env_table :: "string \<rightharpoonup> any" where
  "minio_env_table = spec_minio_default_table
     (''pathStyle'' \<mapsto> ABool True, ''disableSSL'' \<mapsto> ABool True)"

text \<open>The state of the per-instance state machine, through the interface.\<close>

fun Storage_initialized :: "Storage \<Rightarrow> bool" where
  "Storage_initialized (OfMinIO s) = MinIOStorage.initialized s"
| "Storage_initialized (OfAzure s) = AzureStorage.initialized s"

text \<open>Dynamic types of property values, and the keys each backend reads with which assertion.\<close>

fun is_string :: "any \<Rightarrow> bool" where
  "is_string (AString s) = True"
| "is_string v = False"

fun is_bool :: "any \<Rightarrow> bool" where
  "is_bool (ABool b) = True"
| "is_bool v = False"

definition S3_string_keys :: "string list" where
  "S3_string_keys = [''endpoint'', ''bucket'', ''region'', ''accessKey'', ''secretKey'']"

definition S3_bool_keys :: "string list" where
  "S3_bool_keys = [''useSSL'', ''pathStyle'', ''disableSSL'']"

definition Azure_string_keys :: "string list" where
  "Azure_string_keys = [''accountName'', ''accountKey'', ''containerName'', ''endpoint'',
     ''blobAccessTier'', ''containerAccessType'']"

text \<open>
  Concrete outside worlds: every call succeeds; the bucket is not found and cannot be
  created; the bucket is not found and can be created; the Azure service cannot be built.
\<close>

definition sdk_ok :: sdk where
  "sdk_ok = \<lparr>LoadDefaultConfig = (\<lambda>_ _. None), HeadBucket = (\<lambda>_ _ _. None),
     CreateBucket = (\<lambda>_ _ _. None), NewAzureService = (\<lambda>_ _. None),
     NewHandler = (\<lambda>_ _. None), unicode_ToLower = (\<lambda>s. s)\<rparr>"

definition sdk_no_bucket :: sdk where
  "sdk_no_bucket = sdk_ok\<lparr>HeadBucket := (\<lambda>_ _ _. Some (SdkError ''NotFound'')),
     CreateBucket := (\<lambda>_ _ _. Some (SdkError ''AccessDenied''))\<rparr>"



text \<open>Concrete configurations used to instantiate the properties.\<close>

definition cfg_minio_nil :: Config where
  "cfg_minio_nil = \<lparr>Provider = MinIO, Properties = None\<rparr>"

definition cfg_minio_path_style_off :: Config where
  "cfg_minio_path_style_off =
     \<lparr>Provider = MinIO, Properties = Some [''pathStyle'' \<mapsto> ABool False]\<rparr>"

definition cfg_azure_acct :: Config where
  "cfg_azure_acct = \<lparr>Provider = Azure, Properties = Some
     [''accountName'' \<mapsto> AString ''acct'', ''accountKey'' \<mapsto> AString ''key'',
      ''containerName'' \<mapsto> AString ''uploads'']\<rparr>"


definition cfg_azure_no_key :: Config where
  "cfg_azure_no_key = \<lparr>Provider = Azure, Properties = Some
     [''accountName'' \<mapsto> AString ''acct'', ''containerName'' \<mapsto> AString ''uploads'',
      ''endpoint'' \<mapsto> AString ''http://127.0.0.1:10000'']\<rparr>"

text \<open>Newly constructed instances in the initial process state, seen through the interface.\<close>

definition new_minio :: "Storage \<times> sys" where
  "new_minio = (OfMinIO (fst (NewMinIOStorage sys0)), snd (NewMinIOStorage sys0))"

definition new_azure :: "Storage \<times> sys" where
  "new_azure = (OfAzure (fst (NewAzureStorage sys0)), snd (NewAzureStorage sys0))"

section \<open>Registry and Factory\<close>

lemma ToLower_minio: "strings_ToLower w ''minio'' = ''minio''"
  by (simp add: strings_ToLower_def is_ascii_def ascii_lower_def)

lemma providers_NewFactory:
  "providers (registry (fst (NewFactory st))) =
     [MinIO \<mapsto> OfMinIO (fst (NewMinIOStorage st)),
      Azure \<mapsto> OfAzure (fst (NewAzureStorage (snd (NewMinIOStorage st))))]"
  by (simp add: NewFactory_def NewRegistry_def Register_def Let_def split: prod.splits)

text \<open>
  Claim C4. In the registry built by \<open>NewFactory\<close>, \<open>Get\<close> answers each of the two
  registered identifiers, \<open>minio\<close> and \<open>azure\<close>, with the registered implementation and no
  error, and answers every other identifier (\<open>disk\<close> and \<open>memory\<close> among them) with no
  implementation and the not-found error.
\<close>

theorem registry_get_registered_or_not_found:
  "Get (registry (fst (NewFactory st))) MinIO = (Some (OfMinIO (fst (NewMinIOStorage st))), None)
   \<and> Get (registry (fst (NewFactory st))) Azure =
       (Some (OfAzure (fst (NewAzureStorage (snd (NewMinIOStorage st))))), None)
   \<and> (\<forall>p. p \<noteq> MinIO \<and> p \<noteq> Azure \<longrightarrow>
         Get (registry (fst (NewFactory st))) p =
           (None, Some (Errorf (''storage provider '' @ p @ '' not found''))))"
  by (simp add: Get_def providers_NewFactory MinIO_def Azure_def)

theorem registry_get_witness:
  "Disk \<noteq> MinIO \<and> Disk \<noteq> Azure \<and> Memory \<noteq> MinIO \<and> Memory \<noteq> Azure
   \<and> Get (registry (fst (NewFactory sys0))) Disk =
       (None, Some (Errorf ''storage provider disk not found''))
   \<and> Get (registry (fst (NewFactory sys0))) Memory =
       (None, Some (Errorf ''storage provider memory not found''))
   \<and> fst (Get (registry (fst (NewFactory sys0))) MinIO) \<noteq> None
   \<and> fst (Get (registry (fst (NewFactory sys0))) Azure) \<noteq> None"
  using registry_get_registered_or_not_found [of sys0]
  by (simp add: Disk_def Memory_def MinIO_def Azure_def)

lemma getEnv_unset: "env key = None \<Longrightarrow> getEnv env key d = d"
  by (simp add: getEnv_def os_Getenv_def)

lemma getEnvBool_unset: "env key = None \<Longrightarrow> getEnvBool w env key d = d"
  by (simp add: getEnvBool_def os_Getenv_def)

lemma CreateFromEnv_config_unset_type:
  assumes "env ''STORAGE_TYPE'' = None"
  shows "CreateFromEnv_config w env = Inr \<lparr>Provider = MinIO, Properties = Some (Map.empty
             (''endpoint'' \<mapsto> AString (getEnv env ''MINIO_ENDPOINT'' ''localhost:9000''),
              ''bucket'' \<mapsto> AString (getEnv env ''MINIO_BUCKET'' ''uploads''),
              ''region'' \<mapsto> AString (getEnv env ''MINIO_REGION'' ''us-east-1''),
              ''accessKey'' \<mapsto> AString (getEnv env ''MINIO_ACCESS_KEY'' ''minioadmin''),
              ''secretKey'' \<mapsto> AString (getEnv env ''MINIO_SECRET_KEY'' ''minioadmin''),
              ''useSSL'' \<mapsto> ABool (getEnvBool w env ''MINIO_USE_SSL'' False),
              ''pathStyle'' \<mapsto> ABool True,
              ''disableSSL'' \<mapsto> ABool (\<not> getEnvBool w env ''MINIO_USE_SSL'' False)))\<rparr>"
proof -
  have "os_Getenv env ''STORAGE_TYPE'' = ''''"
    using assms by (simp add: os_Getenv_def)
  moreover have "strings_ToLower w MinIO = MinIO"
    by (simp add: MinIO_def ToLower_minio)
  ultimately show ?thesis
    by (simp add: CreateFromEnv_config_def)
qed

lemma CreateFromEnv_config_empty:
  "CreateFromEnv_config w Map.empty = Inr \<lparr>Provider = ''minio'', Properties = Some minio_env_table\<rparr>"
  using CreateFromEnv_config_unset_type [of Map.empty w]
  by (simp add: getEnv_unset getEnvBool_unset minio_env_table_def
      spec_minio_default_table_def MinIO_def)

text \<open>
  Claim C1, as stated, fails: with \<open>STORAGE_TYPE\<close> and every \<open>MINIO_*\<close> variable unset,
  the Properties of the Config built by \<open>CreateFromEnv\<close> are not the six-entry table of the
  specification. They hold two further entries, \<open>pathStyle\<close> and \<open>disableSSL\<close>, both true.
\<close>

theorem create_from_env_table_counterexample:
  "CreateFromEnv_config sdk_ok Map.empty = Inr \<lparr>Provider = ''minio'', Properties = Some minio_env_table\<rparr>
   \<and> minio_env_table ''pathStyle'' = Some (ABool True)
   \<and> minio_env_table ''disableSSL'' = Some (ABool True)
   \<and> spec_minio_default_table ''pathStyle'' = None
   \<and> spec_minio_default_table ''disableSSL'' = None
   \<and> Some minio_env_table \<noteq> Some spec_minio_default_table"
proof -
  have b: "minio_env_table ''pathStyle'' = Some (ABool True)"
    by (simp add: minio_env_table_def)
  have c: "spec_minio_default_table ''pathStyle'' = None"
    by (simp add: spec_minio_default_table_def)
  have d: "minio_env_table ''disableSSL'' = Some (ABool True)"
    by (simp add: minio_env_table_def)
  have e: "spec_minio_default_table ''disableSSL'' = None"
    by (simp add: spec_minio_default_table_def)
  have "minio_env_table \<noteq> spec_minio_default_table"
    using b c by (metis option.distinct(1))
  with CreateFromEnv_config_empty [of sdk_ok] b c d e show ?thesis by simp
qed

text \<open>
  Claim C1, amended. For every environment in which \<open>STORAGE_TYPE\<close> is unset,
  \<open>CreateFromEnv\<close> builds a Config whose provider is \<open>minio\<close>, continues exactly as
  \<open>CreateFromConfig\<close> on that Config, and the registry of \<open>NewFactory\<close> resolves the
  provider to the S3-compatible implementation. When moreover none of the six \<open>MINIO_*\<close>
  variables is set, the Properties are the six entries of the specification's table
  together with \<open>pathStyle\<close> true and \<open>disableSSL\<close> true, and nothing else.
\<close>

theorem create_from_env_default_provider:
  assumes "env ''STORAGE_TYPE'' = None"
  shows "\<exists>cfg. CreateFromEnv_config w env = Inr cfg \<and> Provider cfg = MinIO
     \<and> CreateFromEnv w env fs = CreateFromConfig w cfg fs
     \<and> fst (Get (registry (fst (NewFactory st))) (Provider cfg)) =
         Some (OfMinIO (fst (NewMinIOStorage st)))
     \<and> (env ''MINIO_ENDPOINT'' = None \<and> env ''MINIO_BUCKET'' = None
        \<and> env ''MINIO_REGION'' = None \<and> env ''MINIO_ACCESS_KEY'' = None
        \<and> env ''MINIO_SECRET_KEY'' = None \<and> env ''MINIO_USE_SSL'' = None
        \<longrightarrow> Properties cfg = Some minio_env_table)"
proof -
  define cfg where "cfg = \<lparr>Provider = MinIO, Properties = Some (Map.empty
             (''endpoint'' \<mapsto> AString (getEnv env ''MINIO_ENDPOINT'' ''localhost:9000''),
              ''bucket'' \<mapsto> AString (getEnv env ''MINIO_BUCKET'' ''uploads''),
              ''region'' \<mapsto> AString (getEnv env ''MINIO_REGION'' ''us-east-1''),
              ''accessKey'' \<mapsto> AString (getEnv env ''MINIO_ACCESS_KEY'' ''minioadmin''),
              ''secretKey'' \<mapsto> AString (getEnv env ''MINIO_SECRET_KEY'' ''minioadmin''),
              ''useSSL'' \<mapsto> ABool (getEnvBool w env ''MINIO_USE_SSL'' False),
              ''pathStyle'' \<mapsto> ABool True,
              ''disableSSL'' \<mapsto> ABool (\<not> getEnvBool w env ''MINIO_USE_SSL'' False)))\<rparr>"
  have c: "CreateFromEnv_config w env = Inr cfg"
    unfolding cfg_def using assms by (rule CreateFromEnv_config_unset_type)
  have p: "Provider cfg = MinIO"
    by (simp add: cfg_def)
  have e: "CreateFromEnv w env fs = CreateFromConfig w cfg fs"
    by (cases fs) (simp add: CreateFromEnv_def CreateFromConfig_def c)
  have g: "fst (Get (registry (fst (NewFactory st))) (Provider cfg)) =
         Some (OfMinIO (fst (NewMinIOStorage st)))"
    by (simp add: p Get_def providers_NewFactory MinIO_def Azure_def)
  have t: "Properties cfg = Some minio_env_table"
    if "env ''MINIO_ENDPOINT'' = None \<and> env ''MINIO_BUCKET'' = None
        \<and> env ''MINIO_REGION'' = None \<and> env ''MINIO_ACCESS_KEY'' = None
        \<and> env ''MINIO_SECRET_KEY'' = None \<and> env ''MINIO_USE_SSL'' = None"
    using that
    by (simp add: cfg_def getEnv_unset getEnvBool_unset minio_env_table_def
        spec_minio_default_table_def)
  from c p e g t show ?thesis by blast
qed

theorem create_from_env_default_witness:
  "(Map.empty :: environ) ''STORAGE_TYPE'' = None
   \<and> CreateFromEnv_config sdk_ok Map.empty =
       Inr \<lparr>Provider = ''minio'', Properties = Some minio_env_table\<rparr>
   \<and> CreateFromEnv sdk_ok Map.empty (NewFactory sys0) =
       CreateFromConfig sdk_ok \<lparr>Provider = ''minio'', Properties = Some minio_env_table\<rparr>
         (NewFactory sys0)"
  using create_from_env_default_provider [of Map.empty sdk_ok "NewFactory sys0" sys0]
    CreateFromEnv_config_empty [of sdk_ok]
  by auto

section \<open>Initialization: case analysis\<close>

subsection \<open>The composer store\<close>

lemma assemble_composer_eq:
  "assemble_composer store st =
     (length (composers st),
      st\<lparr>composers := composers st @ [\<lparr>Core = Some store, Locker = Some MemoryLocker\<rparr>]\<rparr>)"
  by (simp add: assemble_composer_def NewStoreComposer_def Locker_UseIn_def Store_UseIn_def
      empty_composer_def Let_def)

lemma verify_bucket_cases:
  "verify_bucket w c b st = (r, st') \<Longrightarrow>
     (HeadBucket w (calls st) c b = None \<and> r = None
        \<and> st' = record_call (CallHeadBucket c b) st)
   \<or> (HeadBucket w (calls st) c b \<noteq> None
        \<and> CreateBucket w (calls st @ [CallHeadBucket c b]) c b = None \<and> r = None
        \<and> st' = record_call (CallCreateBucket c b) (record_call (CallHeadBucket c b) st))
   \<or> (\<exists>e. HeadBucket w (calls st) c b \<noteq> None
        \<and> CreateBucket w (calls st @ [CallHeadBucket c b]) c b = Some e
        \<and> r = Some (Wrapf ''error creating bucket: %w'' e)
        \<and> st' = record_call (CallCreateBucket c b) (record_call (CallHeadBucket c b) st))"
  by (auto simp: verify_bucket_def Let_def record_call_def split: option.splits)

lemma verify_bucket_composers:
  "verify_bucket w c b st = (r, st') \<Longrightarrow> composers st' = composers st"
  by (auto simp: verify_bucket_def Let_def record_call_def split: option.splits)

subsection \<open>The S3-compatible backend\<close>

lemma s3_NewFromConfig_path_style:
  "s3_NewFromConfig opts [\<lambda>opts. opts\<lparr>UsePathStyle := True\<rparr>] =
     \<lparr>awsCfg = opts, UsePathStyle = True\<rparr>"
  by (simp add: s3_NewFromConfig_def)

lemma MinIO_Initialize_panic:
  "minio_url (S3Config_merge cfg) = Panics msg \<Longrightarrow>
   MinIOStorage_Initialize w cfg (s, st) =
     (Panics msg, s\<lparr>MinIOStorage.config := S3Config_merge cfg\<rparr>, st)"
  by (simp add: MinIOStorage_Initialize_def)

lemma MinIO_Initialize_four_byte_endpoint:
  "fst (MinIOStorage_Initialize w
     \<lparr>Provider = MinIO, Properties = Some [''endpoint'' \<mapsto> AString ''host'']\<rparr> inst) =
     Panics ''slice bounds out of range [:5] with length 4''"
  by (cases inst)
    (simp add: MinIOStorage_Initialize_def S3Config_merge_def S3Config_defaults_def
      override_string_def override_bool_def assert_string_def assert_bool_def minio_url_def)

lemma MinIO_Initialize_load_fails:
  "minio_url (S3Config_merge cfg) = Returns url \<Longrightarrow>
   LoadDefaultConfig w (calls st) (awsOpts_of (S3Config_merge cfg) url) = Some e \<Longrightarrow>
   MinIOStorage_Initialize w cfg (s, st) =
     (Returns (Some (Wrapf ''failed to load AWS SDK config: %w'' e)),
      s\<lparr>MinIOStorage.config := S3Config_merge cfg\<rparr>,
      record_call (CallLoadDefaultConfig (awsOpts_of (S3Config_merge cfg) url)) st)"
  by (simp add: MinIOStorage_Initialize_def Let_def)

lemma MinIO_Initialize_loaded:
  "minio_url (S3Config_merge cfg) = Returns url \<Longrightarrow>
   LoadDefaultConfig w (calls st) (awsOpts_of (S3Config_merge cfg) url) = None \<Longrightarrow>
   MinIOStorage_Initialize w cfg (s, st) =
     (let c = S3Config_merge cfg;
          s3c = \<lparr>awsCfg = awsOpts_of c url, UsePathStyle = True\<rparr>;
          s2 = s\<lparr>MinIOStorage.config := c, s3Client := Some s3c\<rparr>;
          (bucketErr, st2) = verify_bucket w s3c (Bucket c)
                               (record_call (CallLoadDefaultConfig (awsOpts_of c url)) st)
      in case bucketErr of
           Some err \<Rightarrow> (Returns (Some err), s2, st2)
         | None \<Rightarrow>
             (Returns None,
              s2\<lparr>MinIOStorage.composer := Some (length (composers st2)),
                 MinIOStorage.initialized := True\<rparr>,
              st2\<lparr>composers := composers st2 @
                 [\<lparr>Core = Some (S3Store (Bucket c) s3c), Locker = Some MemoryLocker\<rparr>]\<rparr>))"
  by (simp add: MinIOStorage_Initialize_def Let_def
      s3_NewFromConfig_path_style assemble_composer_eq split: prod.splits option.splits)

lemma MinIO_Initialize_not_ok:
  assumes "MinIOStorage_Initialize w cfg (s, st) = (r, s', st')" and "r \<noteq> Returns None"
  shows "MinIOStorage.initialized s' = MinIOStorage.initialized s
       \<and> MinIOStorage.composer s' = MinIOStorage.composer s
       \<and> composers st' = composers st"
proof (cases "minio_url (S3Config_merge cfg)")
  case (Panics msg)
  then show ?thesis using assms by (auto simp: MinIO_Initialize_panic)
next
  case (Returns url)
  show ?thesis
  proof (cases "LoadDefaultConfig w (calls st) (awsOpts_of (S3Config_merge cfg) url)")
    case (Some e)
    then show ?thesis using assms Returns
      by (auto simp: MinIO_Initialize_load_fails record_call_def)
  next
    case None
    then show ?thesis using assms Returns
      by (auto simp: MinIO_Initialize_loaded Let_def record_call_def
          split: prod.splits option.splits dest: verify_bucket_composers)
  qed
qed

lemma MinIO_Initialize_ok:
  assumes "MinIOStorage_Initialize w cfg (s, st) = (Returns None, s', st')"
  shows "MinIOStorage.initialized s'
       \<and> MinIOStorage.composer s' = Some (length (composers st))
       \<and> composers st' = composers st @
           [\<lparr>Core = Some (S3Store (Bucket (MinIOStorage.config s')) (the (s3Client s'))),
             Locker = Some MemoryLocker\<rparr>]"
proof (cases "minio_url (S3Config_merge cfg)")
  case (Panics msg)
  then show ?thesis using assms by (auto simp: MinIO_Initialize_panic)
next
  case (Returns url)
  show ?thesis
  proof (cases "LoadDefaultConfig w (calls st) (awsOpts_of (S3Config_merge cfg) url)")
    case (Some e)
    then show ?thesis using assms Returns
      by (auto simp: MinIO_Initialize_load_fails record_call_def)
  next
    case None
    then show ?thesis using assms Returns
      by (auto simp: MinIO_Initialize_loaded Let_def record_call_def
          split: prod.splits option.splits dest: verify_bucket_composers)
  qed
qed

lemma MinIO_Initialize_config:
  "MinIOStorage_Initialize w cfg (s, st) = (r, s', st') \<Longrightarrow>
     MinIOStorage.config s' = S3Config_merge cfg"
  by (auto simp: MinIOStorage_Initialize_def Let_def
      split: outcome.splits prod.splits option.splits)

subsection \<open>The Azure backend\<close>

lemma Azure_Initialize_no_name:
  "AccountName (AzureConfig_merge cfg) = '''' \<Longrightarrow>
   AzureStorage_Initialize w cfg (s, st) =
     (Returns (Some (Wrapf ''azure account name is required: %w'' ErrInvalidConfig)), s, st)"
  by (simp add: AzureStorage_Initialize_def)

lemma Azure_Initialize_no_key:
  "AccountName (AzureConfig_merge cfg) \<noteq> '''' \<Longrightarrow> AccountKey (AzureConfig_merge cfg) = '''' \<Longrightarrow>
   AzureStorage_Initialize w cfg (s, st) =
     (Returns (Some (Wrapf ''azure account key is required: %w'' ErrInvalidConfig)), s, st)"
  by (simp add: AzureStorage_Initialize_def)

lemma Azure_Initialize_valid:
  "AccountName (AzureConfig_merge cfg) \<noteq> '''' \<Longrightarrow> AccountKey (AzureConfig_merge cfg) \<noteq> '''' \<Longrightarrow>
   AzureStorage_Initialize w cfg (s, st) =
     (let c = AzureConfig_merge cfg;
          az = AzConfig_of c;
          st1 = record_call (CallNewAzureService az) st
      in case NewAzureService w (calls st) az of
           Some err \<Rightarrow>
             (Returns (Some (Wrapf ''error creating Azure service: %w'' err)),
              s\<lparr>AzureStorage.config := c\<rparr>, st1)
         | None \<Rightarrow>
             (Returns None,
              s\<lparr>AzureStorage.config := c, AzureStorage.composer := Some (length (composers st)),
                service := Some (AzService az), AzureStorage.initialized := True\<rparr>,
              st1\<lparr>composers := composers st @
                 [\<lparr>Core = Some (AzureStore (AzService az)), Locker = Some MemoryLocker\<rparr>]\<rparr>))"
  by (simp add: AzureStorage_Initialize_def Let_def assemble_composer_eq record_call_def
      split: option.splits)

lemma Azure_Initialize_not_ok:
  assumes "AzureStorage_Initialize w cfg (s, st) = (r, s', st')" and "r \<noteq> Returns None"
  shows "AzureStorage.initialized s' = AzureStorage.initialized s
       \<and> AzureStorage.composer s' = AzureStorage.composer s
       \<and> composers st' = composers st"
proof (cases "AccountName (AzureConfig_merge cfg) = ''''")
  case True
  then show ?thesis using assms by (auto simp: Azure_Initialize_no_name)
next
  case False
  show ?thesis
  proof (cases "AccountKey (AzureConfig_merge cfg) = ''''")
    case True
    then show ?thesis using assms False by (auto simp: Azure_Initialize_no_key)
  next
    case k: False
    then show ?thesis using assms False
      by (auto simp: Azure_Initialize_valid Let_def record_call_def split: option.splits)
  qed
qed

lemma Azure_Initialize_ok:
  assumes "AzureStorage_Initialize w cfg (s, st) = (Returns None, s', st')"
  shows "AzureStorage.initialized s'
       \<and> AzureStorage.composer s' = Some (length (composers st))
       \<and> composers st' = composers st @
           [\<lparr>Core = Some (AzureStore (the (service s'))), Locker = Some MemoryLocker\<rparr>]"
proof (cases "AccountName (AzureConfig_merge cfg) = ''''")
  case True
  then show ?thesis using assms by (auto simp: Azure_Initialize_no_name)
next
  case False
  show ?thesis
  proof (cases "AccountKey (AzureConfig_merge cfg) = ''''")
    case True
    then show ?thesis using assms False by (auto simp: Azure_Initialize_no_key)
  next
    case k: False
    then show ?thesis using assms False
      by (auto simp: Azure_Initialize_valid Let_def record_call_def split: option.splits)
  qed
qed

lemma Storage_Initialize_not_ok:
  assumes "Storage_Initialize w cfg (s, st) = (r, s', st')" and "r \<noteq> Returns None"
  shows "Storage_initialized s' = Storage_initialized s
       \<and> Storage_GetStoreComposer s' = Storage_GetStoreComposer s
       \<and> composers st' = composers st"
proof (cases s)
  case (OfMinIO m)
  then obtain m' where "s' = OfMinIO m'" "MinIOStorage_Initialize w cfg (m, st) = (r, m', st')"
    using assms(1) by (auto split: prod.splits)
  then show ?thesis
    using MinIO_Initialize_not_ok [of w cfg m st r m' st'] assms(2) OfMinIO
    by (simp add: MinIOStorage_GetStoreComposer_def)
next
  case (OfAzure a)
  then obtain a' where "s' = OfAzure a'" "AzureStorage_Initialize w cfg (a, st) = (r, a', st')"
    using assms(1) by (auto split: prod.splits)
  then show ?thesis
    using Azure_Initialize_not_ok [of w cfg a st r a' st'] assms(2) OfAzure
    by (simp add: AzureStorage_GetStoreComposer_def)
qed

lemma Storage_Initialize_ok:
  assumes "Storage_Initialize w cfg (s, st) = (Returns None, s', st')"
  shows "Storage_initialized s'
       \<and> Storage_GetStoreComposer s' = Some (length (composers st))
       \<and> length (composers st') = Suc (length (composers st))
       \<and> take (length (composers st)) (composers st') = composers st
       \<and> Core (composers st' ! length (composers st)) \<noteq> None
       \<and> Locker (composers st' ! length (composers st)) = Some MemoryLocker"
proof (cases s)
  case (OfMinIO m)
  then obtain m' where "s' = OfMinIO m'"
      "MinIOStorage_Initialize w cfg (m, st) = (Returns None, m', st')"
    using assms(1) by (auto split: prod.splits)
  then show ?thesis
    using MinIO_Initialize_ok [of w cfg m st m' st']
    by (simp add: MinIOStorage_GetStoreComposer_def)
next
  case (OfAzure a)
  then obtain a' where "s' = OfAzure a'"
      "AzureStorage_Initialize w cfg (a, st) = (Returns None, a', st')"
    using assms(1) by (auto split: prod.splits)
  then show ?thesis
    using Azure_Initialize_ok [of w cfg a st a' st']
    by (simp add: AzureStorage_GetStoreComposer_def)
qed

lemma Storage_GetHandler_uninitialized:
  "\<not> Storage_initialized s \<Longrightarrow>
     Storage_GetHandler w basePath (s, st) = ((None, Some ErrStorageNotConfigured), st)"
  by (cases s) (simp_all add: MinIOStorage_GetHandler_def AzureStorage_GetHandler_def)

text \<open>
  Claim C5. For both backend variants and every base path, \<open>GetHandler\<close> on an instance
  whose \<open>initialized\<close> flag is false returns no handler and the error
  \<open>ErrStorageNotConfigured\<close>, and makes no external call. The instances built by the two
  constructors have the flag false.
\<close>

theorem get_handler_before_initialize:
  "(\<not> Storage_initialized s \<longrightarrow>
      Storage_GetHandler w basePath (s, st) = ((None, Some ErrStorageNotConfigured), st))
   \<and> \<not> Storage_initialized (OfMinIO (fst (NewMinIOStorage st)))
   \<and> \<not> Storage_initialized (OfAzure (fst (NewAzureStorage st)))"
  by (simp add: Storage_GetHandler_uninitialized NewMinIOStorage_def NewAzureStorage_def
      split: prod.splits)

theorem get_handler_before_initialize_witness:
  "Storage_GetHandler sdk_ok ''/files/'' (OfMinIO (fst (NewMinIOStorage sys0)), sys0) =
     ((None, Some ErrStorageNotConfigured), sys0)
   \<and> Storage_GetHandler sdk_ok ''/files/'' (OfAzure (fst (NewAzureStorage sys0)), sys0) =
     ((None, Some ErrStorageNotConfigured), sys0)"
  using get_handler_before_initialize [of "OfMinIO (fst (NewMinIOStorage sys0))" sdk_ok "''/files/''" sys0]
    get_handler_before_initialize [of "OfAzure (fst (NewAzureStorage sys0))" sdk_ok "''/files/''" sys0]
  by simp

text \<open>
  Claim C9. For both backend variants and every Config: an \<open>Initialize\<close> that does not
  return success (it returns an error, or panics) leaves the \<open>initialized\<close> flag as it
  was. So on an instance in the Uninitialized state the flag stays false and every
  \<open>GetHandler\<close> call on the instance still fails with \<open>ErrStorageNotConfigured\<close>; and
  when an instance that was uninitialized is initialized afterwards, \<open>Initialize\<close> has
  returned success.
\<close>

theorem failed_initialize_stays_uninitialized:
  assumes "Storage_Initialize w cfg (s, st) = (r, s', st')"
  shows "(r \<noteq> Returns None \<longrightarrow> Storage_initialized s' = Storage_initialized s)
       \<and> (\<not> Storage_initialized s \<and> r \<noteq> Returns None \<longrightarrow>
            \<not> Storage_initialized s'
            \<and> (\<forall>w' basePath st''. Storage_GetHandler w' basePath (s', st'') =
                  ((None, Some ErrStorageNotConfigured), st'')))
       \<and> (\<not> Storage_initialized s \<and> Storage_initialized s' \<longrightarrow> r = Returns None)"
proof -
  have a: "Storage_initialized s' = Storage_initialized s" if "r \<noteq> Returns None"
    using Storage_Initialize_not_ok [OF assms that] by simp
  then show ?thesis
    by (auto simp: Storage_GetHandler_uninitialized)
qed

lemmas run_defs =
  new_minio_def new_azure_def NewMinIOStorage_def NewAzureStorage_def NewStoreComposer_def
  sys0_def empty_composer_def S3Config_zero_def AzureConfig_zero_def
  MinIOStorage_Initialize_def AzureStorage_Initialize_def
  S3Config_merge_def S3Config_defaults_def AzureConfig_merge_def AzureConfig_defaults_def
  override_string_def override_bool_def assert_string_def assert_bool_def
  minio_url_def awsOpts_of_def s3_NewFromConfig_def verify_bucket_def record_call_def
  assemble_composer_def Locker_UseIn_def Store_UseIn_def AzConfig_of_def
  sdk_ok_def sdk_no_bucket_def
  cfg_minio_nil_def cfg_minio_path_style_off_def cfg_azure_acct_def cfg_azure_no_key_def
  MinIOStorage_GetHandler_def AzureStorage_GetHandler_def tusd_NewHandler_def
  MinIOStorage_GetStoreComposer_def AzureStorage_GetStoreComposer_def
  MinIO_def Azure_def Let_def

lemma run_minio_no_bucket:
  "fst (Storage_Initialize sdk_no_bucket cfg_minio_nil new_minio) =
     Returns (Some (Wrapf ''error creating bucket: %w'' (SdkError ''AccessDenied'')))"
  by (simp add: run_defs)

lemma run_azure_no_key:
  "Storage_Initialize sdk_ok cfg_azure_no_key new_azure =
     (Returns (Some (Wrapf ''azure account key is required: %w'' ErrInvalidConfig)), new_azure)"
  by (simp add: run_defs)

lemma new_uninitialized:
  "\<not> Storage_initialized (fst new_minio)" "\<not> Storage_initialized (fst new_azure)"
  by (simp_all add: run_defs)

theorem failed_initialize_witness:
  "\<not> Storage_initialized (fst new_minio)
   \<and> fst (Storage_Initialize sdk_no_bucket cfg_minio_nil new_minio) =
       Returns (Some (Wrapf ''error creating bucket: %w'' (SdkError ''AccessDenied'')))
   \<and> \<not> Storage_initialized (fst (snd (Storage_Initialize sdk_no_bucket cfg_minio_nil new_minio)))
   \<and> Storage_GetHandler sdk_ok ''/files/''
        (fst (snd (Storage_Initialize sdk_no_bucket cfg_minio_nil new_minio)), sys0) =
       ((None, Some ErrStorageNotConfigured), sys0)
   \<and> \<not> Storage_initialized (fst new_azure)
   \<and> fst (Storage_Initialize sdk_ok cfg_azure_no_key new_azure) =
       Returns (Some (Wrapf ''azure account key is required: %w'' ErrInvalidConfig))
   \<and> Storage_GetHandler sdk_ok ''/files/''
        (fst (snd (Storage_Initialize sdk_ok cfg_azure_no_key new_azure)), sys0) =
       ((None, Some ErrStorageNotConfigured), sys0)"
proof -
  let ?M = "Storage_Initialize sdk_no_bucket cfg_minio_nil new_minio"
  let ?A = "Storage_Initialize sdk_ok cfg_azure_no_key new_azure"
  have m: "Storage_Initialize sdk_no_bucket cfg_minio_nil (fst new_minio, snd new_minio) =
      (fst ?M, fst (snd ?M), snd (snd ?M))"
    by simp
  have a: "Storage_Initialize sdk_ok cfg_azure_no_key (fst new_azure, snd new_azure) =
      (fst ?A, fst (snd ?A), snd (snd ?A))"
    by simp
  note tm = failed_initialize_stays_uninitialized [OF m, THEN conjunct2, THEN conjunct1]
  note ta = failed_initialize_stays_uninitialized [OF a, THEN conjunct2, THEN conjunct1]
  from tm have cm: "\<not> Storage_initialized (fst (snd ?M))
      \<and> Storage_GetHandler sdk_ok ''/files/'' (fst (snd ?M), sys0) =
          ((None, Some ErrStorageNotConfigured), sys0)"
    by (simp add: run_minio_no_bucket new_uninitialized)
  from ta have ca: "Storage_GetHandler sdk_ok ''/files/'' (fst (snd ?A), sys0) =
          ((None, Some ErrStorageNotConfigured), sys0)"
    by (simp add: run_azure_no_key new_uninitialized)
  from cm ca show ?thesis
    by (simp add: run_minio_no_bucket run_azure_no_key new_uninitialized)
qed

text \<open>
  Claim C3. Whenever the account name or the account key is empty after overlaying the
  Properties on the Azure defaults, \<open>AzureStorage.Initialize\<close> returns an error that
  wraps \<open>ErrInvalidConfig\<close>, whatever the other properties, the instance and the outside
  world; the instance and the process state are left exactly as they were, so the
  instance does not become initialized.
\<close>

theorem azure_missing_account_invalid_config:
  assumes "AccountName (AzureConfig_merge cfg) = '''' \<or> AccountKey (AzureConfig_merge cfg) = ''''"
  shows "\<exists>err. AzureStorage_Initialize w cfg (s, st) = (Returns (Some err), s, st)
           \<and> errors_Is err ErrInvalidConfig"
proof (cases "AccountName (AzureConfig_merge cfg) = ''''")
  case True
  then show ?thesis by (simp add: Azure_Initialize_no_name)
next
  case False
  with assms have "AccountKey (AzureConfig_merge cfg) = ''''" by simp
  with False show ?thesis by (simp add: Azure_Initialize_no_key)
qed

theorem azure_missing_account_witness:
  "AccountKey (AzureConfig_merge cfg_azure_no_key) = ''''
   \<and> AzureStorage_Initialize sdk_ok cfg_azure_no_key (NewAzureStorage sys0) =
       (Returns (Some (Wrapf ''azure account key is required: %w'' ErrInvalidConfig)),
        NewAzureStorage sys0)
   \<and> \<not> AzureStorage.initialized (fst (NewAzureStorage sys0))"
proof -
  have k: "AccountKey (AzureConfig_merge cfg_azure_no_key) = ''''"
    by (simp add: run_defs)
  have n: "AccountName (AzureConfig_merge cfg_azure_no_key) \<noteq> ''''"
    by (simp add: run_defs)
  from k have h: "AccountName (AzureConfig_merge cfg_azure_no_key) = ''''
      \<or> AccountKey (AzureConfig_merge cfg_azure_no_key) = ''''" ..
  from azure_missing_account_invalid_config [OF h, of sdk_ok "fst (NewAzureStorage sys0)" "snd (NewAzureStorage sys0)"]
  show ?thesis
    using k n by (auto simp: Azure_Initialize_no_key NewAzureStorage_def NewStoreComposer_def)
qed

lemma new_storage_composer:
  "Storage_GetStoreComposer (OfMinIO (fst (NewMinIOStorage st))) = Some (length (composers st))"
  "composers (snd (NewMinIOStorage st)) ! length (composers st) = empty_composer"
  "Storage_GetStoreComposer (OfAzure (fst (NewAzureStorage st))) = Some (length (composers st))"
  "composers (snd (NewAzureStorage st)) ! length (composers st) = empty_composer"
  by (simp_all add: NewMinIOStorage_def NewAzureStorage_def NewStoreComposer_def
      MinIOStorage_GetStoreComposer_def AzureStorage_GetStoreComposer_def)

text \<open>
  Claim C7. After a successful \<open>Initialize\<close>, for both variants, \<open>GetStoreComposer\<close>
  returns on each of two consecutive calls the address of the composer allocated during
  that \<open>Initialize\<close>, which holds a data store and the in-memory locker
  (\<open>GetStoreComposer\<close> reads a field and changes nothing). Before initialization it
  returns, without any error, the address of the empty composer allocated by the
  constructor, and an \<open>Initialize\<close> that does not succeed leaves both that address and the
  composers untouched.
\<close>

theorem get_store_composer_identical:
  "(Storage_Initialize w cfg (s, st) = (Returns None, s', st') \<longrightarrow>
      (Storage_GetStoreComposer s', Storage_GetStoreComposer s') =
        (Some (length (composers st)), Some (length (composers st)))
      \<and> length (composers st') = Suc (length (composers st))
      \<and> Core (composers st' ! length (composers st)) \<noteq> None
      \<and> Locker (composers st' ! length (composers st)) = Some MemoryLocker)
   \<and> (Storage_Initialize w cfg (s, st) = (r, s', st') \<and> r \<noteq> Returns None \<longrightarrow>
        Storage_GetStoreComposer s' = Storage_GetStoreComposer s
        \<and> composers st' = composers st)
   \<and> Storage_GetStoreComposer (OfMinIO (fst (NewMinIOStorage st))) = Some (length (composers st))
   \<and> composers (snd (NewMinIOStorage st)) ! length (composers st) = empty_composer
   \<and> Storage_GetStoreComposer (OfAzure (fst (NewAzureStorage st))) = Some (length (composers st))
   \<and> composers (snd (NewAzureStorage st)) ! length (composers st) = empty_composer"
proof -
  have a: "(Storage_GetStoreComposer s', Storage_GetStoreComposer s') =
        (Some (length (composers st)), Some (length (composers st)))
      \<and> length (composers st') = Suc (length (composers st))
      \<and> Core (composers st' ! length (composers st)) \<noteq> None
      \<and> Locker (composers st' ! length (composers st)) = Some MemoryLocker"
    if "Storage_Initialize w cfg (s, st) = (Returns None, s', st')"
    using Storage_Initialize_ok [OF that] by simp
  have b: "Storage_GetStoreComposer s' = Storage_GetStoreComposer s
        \<and> composers st' = composers st"
    if "Storage_Initialize w cfg (s, st) = (r, s', st') \<and> r \<noteq> Returns None"
    using that Storage_Initialize_not_ok [of w cfg s st r s' st'] by simp
  from a b new_storage_composer [of st] show ?thesis
    by blast
qed

lemma run_azure_ok:
  "fst (Storage_Initialize sdk_ok cfg_azure_acct new_azure) = Returns None"
  by (simp add: run_defs)

lemma run_minio_ok:
  "fst (Storage_Initialize sdk_ok cfg_minio_nil new_minio) = Returns None"
  by (simp add: run_defs)

theorem get_store_composer_witness:
  "fst (Storage_Initialize sdk_ok cfg_azure_acct new_azure) = Returns None
   \<and> Storage_GetStoreComposer (fst new_azure) = Some 0
   \<and> composers (snd new_azure) ! 0 = empty_composer
   \<and> Storage_GetStoreComposer (fst (snd (Storage_Initialize sdk_ok cfg_azure_acct new_azure)))
       = Some 1
   \<and> Locker (composers (snd (snd (Storage_Initialize sdk_ok cfg_azure_acct new_azure))) ! 1)
       = Some MemoryLocker
   \<and> Core (composers (snd (snd (Storage_Initialize sdk_ok cfg_azure_acct new_azure))) ! 1)
       \<noteq> None"
proof -
  let ?R = "Storage_Initialize sdk_ok cfg_azure_acct new_azure"
  have i: "Storage_Initialize sdk_ok cfg_azure_acct (fst new_azure, snd new_azure) =
      (Returns None, fst (snd ?R), snd (snd ?R))"
    using run_azure_ok by (metis prod.collapse)
  have l: "length (composers (snd new_azure)) = 1"
    by (simp add: run_defs)
  have z: "Storage_GetStoreComposer (fst new_azure) = Some 0
      \<and> composers (snd new_azure) ! 0 = empty_composer"
    by (simp add: run_defs)
  from get_store_composer_identical
    [of sdk_ok cfg_azure_acct "fst new_azure" "snd new_azure" "fst (snd ?R)" "snd (snd ?R)"]
    i l z run_azure_ok
  show ?thesis by simp
qed

lemma override_string_absent: "props key = None \<Longrightarrow> override_string props key d = d"
  by (simp add: override_string_def assert_string_def)

lemma S3Config_merge_no_entries:
  assumes "Properties cfg = None \<or> (\<exists>props. Properties cfg = Some props
        \<and> props ''endpoint'' = None \<and> props ''bucket'' = None \<and> props ''region'' = None)"
  shows "S3Config.Endpoint (S3Config_merge cfg) = ''localhost:9000''
       \<and> Bucket (S3Config_merge cfg) = ''uploads''
       \<and> S3Config.Region (S3Config_merge cfg) = ''us-east-1''"
  using assms
  by (auto simp: S3Config_merge_def S3Config_defaults_def override_string_absent)

lemma minio_url_localhost:
  "S3Config.Endpoint c = ''localhost:9000'' \<Longrightarrow>
     minio_url c = Returns ((if UseSSL c then ''https'' else ''http'') @ ''://localhost:9000'')"
  by (simp add: minio_url_def)

text \<open>
  Claim C8. When the Properties are nil or have no \<open>endpoint\<close>, \<open>bucket\<close> and
  \<open>region\<close> entries, \<open>MinIOStorage.Initialize\<close> records the defaults
  \<open>localhost:9000\<close>, \<open>uploads\<close> and \<open>us-east-1\<close> in the instance's configuration, does
  not panic, and proceeds to load the SDK configuration for that region and for the URL
  made of the protocol and \<open>localhost:9000\<close>. It returns success or an error wrapping a
  failure of the SDK (loading the configuration, creating the bucket), never a validation
  error of its own; when the SDK's loading and bucket creation cannot fail it succeeds.
\<close>

theorem minio_defaults_applied:
  assumes "Properties cfg = None \<or> (\<exists>props. Properties cfg = Some props
        \<and> props ''endpoint'' = None \<and> props ''bucket'' = None \<and> props ''region'' = None)"
    and "MinIOStorage_Initialize w cfg (s, st) = (r, s', st')"
  shows "S3Config.Endpoint (MinIOStorage.config s') = ''localhost:9000''
       \<and> Bucket (MinIOStorage.config s') = ''uploads''
       \<and> S3Config.Region (MinIOStorage.config s') = ''us-east-1''
       \<and> (\<exists>rest. calls st' = calls st @
             CallLoadDefaultConfig (awsOpts_of (MinIOStorage.config s')
               ((if UseSSL (MinIOStorage.config s') then ''https'' else ''http'')
                  @ ''://localhost:9000'')) # rest)
       \<and> (r = Returns None
          \<or> (\<exists>e. r = Returns (Some (Wrapf ''failed to load AWS SDK config: %w'' e)))
          \<or> (\<exists>e. r = Returns (Some (Wrapf ''error creating bucket: %w'' e))))
       \<and> ((\<forall>h opts. LoadDefaultConfig w h opts = None)
            \<and> (\<forall>h c b. CreateBucket w h c b = None)
          \<longrightarrow> r = Returns None \<and> MinIOStorage.initialized s')"
proof -
  let ?c = "S3Config_merge cfg"
  let ?url = "(if UseSSL ?c then ''https'' else ''http'') @ ''://localhost:9000''"
  have d: "S3Config.Endpoint ?c = ''localhost:9000'' \<and> Bucket ?c = ''uploads''
       \<and> S3Config.Region ?c = ''us-east-1''"
    using assms(1) by (rule S3Config_merge_no_entries)
  have u: "minio_url ?c = Returns ?url"
    using d by (simp add: minio_url_localhost)
  have c: "MinIOStorage.config s' = ?c"
    using assms(2) by (rule MinIO_Initialize_config)
  show ?thesis
  proof (cases "LoadDefaultConfig w (calls st) (awsOpts_of ?c ?url)")
    case (Some e)
    from MinIO_Initialize_load_fails [OF u Some, of s] assms(2) d c Some
    show ?thesis by (auto simp: record_call_def)
  next
    case None
    obtain br st2 where v: "verify_bucket w \<lparr>awsCfg = awsOpts_of ?c ?url, UsePathStyle = True\<rparr>
        (Bucket ?c) (record_call (CallLoadDefaultConfig (awsOpts_of ?c ?url)) st) = (br, st2)"
      by (cases "verify_bucket w \<lparr>awsCfg = awsOpts_of ?c ?url, UsePathStyle = True\<rparr>
        (Bucket ?c) (record_call (CallLoadDefaultConfig (awsOpts_of ?c ?url)) st)") auto
    from verify_bucket_cases [OF v] MinIO_Initialize_loaded [OF u None, of s] assms(2) d c v
    show ?thesis
      by (auto simp: record_call_def Let_def)
  qed
qed

theorem minio_defaults_witness:
  "Properties cfg_minio_nil = None
   \<and> fst (MinIOStorage_Initialize sdk_ok cfg_minio_nil (NewMinIOStorage sys0)) = Returns None
   \<and> S3Config.Endpoint (MinIOStorage.config
        (fst (snd (MinIOStorage_Initialize sdk_ok cfg_minio_nil (NewMinIOStorage sys0)))))
       = ''localhost:9000''
   \<and> Bucket (MinIOStorage.config
        (fst (snd (MinIOStorage_Initialize sdk_ok cfg_minio_nil (NewMinIOStorage sys0)))))
       = ''uploads''
   \<and> S3Config.Region (MinIOStorage.config
        (fst (snd (MinIOStorage_Initialize sdk_ok cfg_minio_nil (NewMinIOStorage sys0)))))
       = ''us-east-1''
   \<and> MinIOStorage.initialized
        (fst (snd (MinIOStorage_Initialize sdk_ok cfg_minio_nil (NewMinIOStorage sys0))))"
proof -
  let ?R = "MinIOStorage_Initialize sdk_ok cfg_minio_nil (NewMinIOStorage sys0)"
  have p: "Properties cfg_minio_nil = None \<or> (\<exists>props. Properties cfg_minio_nil = Some props
        \<and> props ''endpoint'' = None \<and> props ''bucket'' = None \<and> props ''region'' = None)"
    by (simp add: cfg_minio_nil_def)
  have i: "MinIOStorage_Initialize sdk_ok cfg_minio_nil
      (fst (NewMinIOStorage sys0), snd (NewMinIOStorage sys0)) = (fst ?R, fst (snd ?R), snd (snd ?R))"
    by simp
  have w: "(\<forall>h opts. LoadDefaultConfig sdk_ok h opts = None)
      \<and> (\<forall>h c b. CreateBucket sdk_ok h c b = None)"
    by (simp add: sdk_ok_def)
  from minio_defaults_applied [OF p i] w show ?thesis
    by (simp add: cfg_minio_nil_def)
qed

section \<open>Path style, mistyped properties, bucket verification\<close>

lemma MinIO_Initialize_path_style_irrelevant:
  assumes "S3Config_merge cfg2 = (S3Config_merge cfg1)\<lparr>PathStyle := b\<rparr>"
  shows "MinIOStorage_Initialize w cfg2 (s, st) =
     (case MinIOStorage_Initialize w cfg1 (s, st) of
        (r, s', st') \<Rightarrow> (r, s'\<lparr>MinIOStorage.config := (MinIOStorage.config s')\<lparr>PathStyle := b\<rparr>\<rparr>, st'))"
proof -
  have u: "minio_url ((S3Config_merge cfg1)\<lparr>PathStyle := b\<rparr>) = minio_url (S3Config_merge cfg1)"
    by (simp add: minio_url_def)
  have o: "awsOpts_of ((S3Config_merge cfg1)\<lparr>PathStyle := b\<rparr>) url = awsOpts_of (S3Config_merge cfg1) url"
    for url by (simp add: awsOpts_of_def)
  show ?thesis
    by (simp add: MinIOStorage_Initialize_def assms u o Let_def
        split: outcome.splits option.splits prod.splits)
qed

lemma S3Config_merge_path_style:
  "Properties cfg = Some props \<Longrightarrow>
   S3Config_merge (cfg\<lparr>Properties := Some (props(''pathStyle'' := x))\<rparr>) =
     (S3Config_merge cfg)
       \<lparr>PathStyle := override_bool (props(''pathStyle'' := x)) ''pathStyle'' True\<rparr>"
  by (simp add: S3Config_merge_def S3Config_defaults_def override_string_def override_bool_def)

lemma MinIO_Initialize_client:
  assumes "MinIOStorage_Initialize w cfg (s, st) = (r, s', st')"
  shows "(\<exists>msg. r = Panics msg)
       \<or> (\<exists>e. r = Returns (Some (Wrapf ''failed to load AWS SDK config: %w'' e)))
       \<or> (\<exists>c. s3Client s' = Some c \<and> UsePathStyle c)"
proof (cases "minio_url (S3Config_merge cfg)")
  case (Panics msg)
  then show ?thesis using assms by (auto simp: MinIO_Initialize_panic)
next
  case (Returns url)
  show ?thesis
  proof (cases "LoadDefaultConfig w (calls st) (awsOpts_of (S3Config_merge cfg) url)")
    case (Some e)
    then show ?thesis using assms Returns by (auto simp: MinIO_Initialize_load_fails)
  next
    case None
    then show ?thesis using assms Returns
      by (auto simp: MinIO_Initialize_loaded Let_def split: prod.splits option.splits)
  qed
qed

text \<open>
  Claim C10. For every Config, whenever \<open>MinIOStorage.Initialize\<close> gets as far as
  constructing the S3 client (it neither panics on the endpoint nor fails to load the SDK
  configuration), the client stored in the instance has \<open>UsePathStyle\<close> true. Two
  Configs whose merged configurations differ at most in the field \<open>PathStyle\<close> give the
  same result, the same process state, the same client, the same composer address and
  the same flag; and changing or removing \<open>Properties["pathStyle"]\<close> changes the merged
  configuration in the field \<open>PathStyle\<close> only. So the parsed \<open>PathStyle\<close> never affects
  the construction of the client.
\<close>

theorem path_style_always_enabled:
  assumes "MinIOStorage_Initialize w cfg (s, st) = (r, s', st')"
  shows "((\<forall>msg. r \<noteq> Panics msg)
            \<and> (\<forall>e. r \<noteq> Returns (Some (Wrapf ''failed to load AWS SDK config: %w'' e)))
          \<longrightarrow> (\<exists>c. s3Client s' = Some c \<and> UsePathStyle c))
       \<and> (S3Config_merge cfg2 = (S3Config_merge cfg)\<lparr>PathStyle := b\<rparr> \<longrightarrow>
            (\<exists>s2. MinIOStorage_Initialize w cfg2 (s, st) = (r, s2, st')
              \<and> s3Client s2 = s3Client s'
              \<and> MinIOStorage.composer s2 = MinIOStorage.composer s'
              \<and> MinIOStorage.initialized s2 = MinIOStorage.initialized s'))
       \<and> (Properties cfg = Some props \<longrightarrow>
            S3Config_merge (cfg\<lparr>Properties := Some (props(''pathStyle'' := x))\<rparr>) =
              (S3Config_merge cfg)
                \<lparr>PathStyle := override_bool (props(''pathStyle'' := x)) ''pathStyle'' True\<rparr>)"
proof -
  have a: "\<exists>c. s3Client s' = Some c \<and> UsePathStyle c"
    if "(\<forall>msg. r \<noteq> Panics msg)
            \<and> (\<forall>e. r \<noteq> Returns (Some (Wrapf ''failed to load AWS SDK config: %w'' e)))"
    using MinIO_Initialize_client [OF assms] that by blast
  have b: "\<exists>s2. MinIOStorage_Initialize w cfg2 (s, st) = (r, s2, st')
              \<and> s3Client s2 = s3Client s'
              \<and> MinIOStorage.composer s2 = MinIOStorage.composer s'
              \<and> MinIOStorage.initialized s2 = MinIOStorage.initialized s'"
    if "S3Config_merge cfg2 = (S3Config_merge cfg)\<lparr>PathStyle := b\<rparr>"
    using MinIO_Initialize_path_style_irrelevant [OF that, of w s st] assms by simp
  from a b S3Config_merge_path_style [of cfg props x] show ?thesis by blast
qed

lemma run_path_style_off:
  "fst (MinIOStorage_Initialize sdk_ok cfg_minio_nil (NewMinIOStorage sys0)) = Returns None"
  "S3Config_merge cfg_minio_path_style_off = (S3Config_merge cfg_minio_nil)\<lparr>PathStyle := False\<rparr>"
  "PathStyle (MinIOStorage.config (fst (snd
      (MinIOStorage_Initialize sdk_ok cfg_minio_path_style_off (NewMinIOStorage sys0))))) = False"
  by (simp_all add: run_defs)

theorem path_style_witness:
  "fst (MinIOStorage_Initialize sdk_ok cfg_minio_path_style_off (NewMinIOStorage sys0)) = Returns None
   \<and> PathStyle (MinIOStorage.config (fst (snd
        (MinIOStorage_Initialize sdk_ok cfg_minio_path_style_off (NewMinIOStorage sys0))))) = False
   \<and> UsePathStyle (the (s3Client (fst (snd
        (MinIOStorage_Initialize sdk_ok cfg_minio_path_style_off (NewMinIOStorage sys0))))))
   \<and> s3Client (fst (snd
        (MinIOStorage_Initialize sdk_ok cfg_minio_path_style_off (NewMinIOStorage sys0)))) =
      s3Client (fst (snd
        (MinIOStorage_Initialize sdk_ok cfg_minio_nil (NewMinIOStorage sys0))))"
proof -
  let ?R = "MinIOStorage_Initialize sdk_ok cfg_minio_nil (NewMinIOStorage sys0)"
  have i: "MinIOStorage_Initialize sdk_ok cfg_minio_nil
      (fst (NewMinIOStorage sys0), snd (NewMinIOStorage sys0)) = (fst ?R, fst (snd ?R), snd (snd ?R))"
    by simp
  note t = path_style_always_enabled [OF i, of cfg_minio_path_style_off False]
  from t run_path_style_off(1)
  obtain c where c: "s3Client (fst (snd ?R)) = Some c" "UsePathStyle c"
    by auto
  from t run_path_style_off(1,2)
  obtain s2 where s2: "MinIOStorage_Initialize sdk_ok cfg_minio_path_style_off
      (NewMinIOStorage sys0) = (Returns None, s2, snd (snd ?R))"
      "s3Client s2 = s3Client (fst (snd ?R))"
    by auto
  from c s2 run_path_style_off(3) show ?thesis
    by simp
qed

lemma override_string_mistyped:
  "\<not> is_string v \<Longrightarrow> override_string (props(k \<mapsto> v)) k d = d"
  by (cases v) (simp_all add: override_string_def assert_string_def)

lemma override_bool_mistyped:
  "\<not> is_bool v \<Longrightarrow> override_bool (props(k \<mapsto> v)) k d = d"
  by (cases v) (simp_all add: override_bool_def assert_bool_def)

lemma override_string_at_mistyped:
  "\<not> is_string v \<Longrightarrow> override_string (props(k \<mapsto> v)) k' d = override_string (props(k := None)) k' d"
  by (cases v) (simp_all add: override_string_def assert_string_def)

lemma override_bool_at_mistyped:
  "\<not> is_bool v \<Longrightarrow> override_bool (props(k \<mapsto> v)) k' d = override_bool (props(k := None)) k' d"
  by (cases v) (simp_all add: override_bool_def assert_bool_def)

lemma override_other_key:
  "k \<noteq> k' \<Longrightarrow> override_string (props(k := x)) k' d = override_string props k' d"
  "k \<noteq> k' \<Longrightarrow> override_bool (props(k := x)) k' b = override_bool props k' b"
  by (simp_all add: override_string_def override_bool_def)

lemma S3Config_merge_mistyped:
  assumes "(k \<in> set S3_string_keys \<and> \<not> is_string v) \<or> (k \<in> set S3_bool_keys \<and> \<not> is_bool v)"
  shows "S3Config_merge (cfg\<lparr>Properties := Some (props(k \<mapsto> v))\<rparr>) =
         S3Config_merge (cfg\<lparr>Properties := Some (props(k := None))\<rparr>)"
proof -
  from assms consider (s) "k \<in> set S3_string_keys" "\<not> is_string v"
    | (b) "k \<in> set S3_bool_keys" "\<not> is_bool v" by blast
  then show ?thesis
  proof cases
    case s
    have "override_bool (props(k \<mapsto> v)) k' d = override_bool (props(k := None)) k' d"
      if "k' \<in> set S3_bool_keys" for k' d
      using that s(1) by (auto simp: S3_bool_keys_def S3_string_keys_def override_other_key)
    then show ?thesis
      using s(2) by (simp add: S3Config_merge_def override_string_at_mistyped S3_bool_keys_def)
  next
    case b
    have "override_string (props(k \<mapsto> v)) k' d = override_string (props(k := None)) k' d"
      if "k' \<in> set S3_string_keys" for k' d
      using that b(1) by (auto simp: S3_bool_keys_def S3_string_keys_def override_other_key)
    then show ?thesis
      using b(2) by (simp add: S3Config_merge_def override_bool_at_mistyped S3_string_keys_def)
  qed
qed

lemma AzureConfig_merge_mistyped:
  assumes "\<not> is_string v"
  shows "AzureConfig_merge (cfg\<lparr>Properties := Some (props(k \<mapsto> v))\<rparr>) =
         AzureConfig_merge (cfg\<lparr>Properties := Some (props(k := None))\<rparr>)"
  using assms by (simp add: AzureConfig_merge_def override_string_at_mistyped)

lemma MinIO_Initialize_merge_cong:
  "S3Config_merge cfg1 = S3Config_merge cfg2 \<Longrightarrow>
     MinIOStorage_Initialize w cfg1 inst = MinIOStorage_Initialize w cfg2 inst"
  by (simp add: MinIOStorage_Initialize_def)

lemma Azure_Initialize_merge_cong:
  "AzureConfig_merge cfg1 = AzureConfig_merge cfg2 \<Longrightarrow>
     AzureStorage_Initialize w cfg1 inst = AzureStorage_Initialize w cfg2 inst"
  by (simp add: AzureStorage_Initialize_def)

text \<open>
  Claim C6. For both backends: when a key the backend reads with a string assertion holds
  a value that is not a string, or a key it reads with a boolean assertion holds a value
  that is not a boolean, \<open>Initialize\<close> behaves exactly as on the Config without that entry
  (same result, same instance, same process state); no error is returned on account of
  the type, and the override of that field yields the built-in default. (For the two
  mandatory Azure fields the built-in default is the empty string, so the missing-field
  error of an absent entry follows.)
\<close>

theorem mistyped_property_ignored:
  "((k \<in> set S3_string_keys \<and> \<not> is_string v) \<or> (k \<in> set S3_bool_keys \<and> \<not> is_bool v) \<longrightarrow>
      MinIOStorage_Initialize w (cfg\<lparr>Properties := Some (props(k \<mapsto> v))\<rparr>) minst =
      MinIOStorage_Initialize w (cfg\<lparr>Properties := Some (props(k := None))\<rparr>) minst)
   \<and> (k \<in> set Azure_string_keys \<and> \<not> is_string v \<longrightarrow>
      AzureStorage_Initialize w (cfg\<lparr>Properties := Some (props(k \<mapsto> v))\<rparr>) ainst =
      AzureStorage_Initialize w (cfg\<lparr>Properties := Some (props(k := None))\<rparr>) ainst)
   \<and> (\<not> is_string v \<longrightarrow> override_string (props(k \<mapsto> v)) k d = d)
   \<and> (\<not> is_bool v \<longrightarrow> override_bool (props(k \<mapsto> v)) k b = b)"
proof -
  have m: "MinIOStorage_Initialize w (cfg\<lparr>Properties := Some (props(k \<mapsto> v))\<rparr>) minst =
      MinIOStorage_Initialize w (cfg\<lparr>Properties := Some (props(k := None))\<rparr>) minst"
    if "(k \<in> set S3_string_keys \<and> \<not> is_string v) \<or> (k \<in> set S3_bool_keys \<and> \<not> is_bool v)"
    using that by (intro MinIO_Initialize_merge_cong S3Config_merge_mistyped)
  have a: "AzureStorage_Initialize w (cfg\<lparr>Properties := Some (props(k \<mapsto> v))\<rparr>) ainst =
      AzureStorage_Initialize w (cfg\<lparr>Properties := Some (props(k := None))\<rparr>) ainst"
    if "\<not> is_string v"
    using that by (intro Azure_Initialize_merge_cong AzureConfig_merge_mistyped)
  from m a show ?thesis
    by (simp add: override_string_mistyped override_bool_mistyped)
qed

theorem mistyped_property_witness:
  "''endpoint'' \<in> set S3_string_keys \<and> \<not> is_string (AInt 9000)
   \<and> MinIOStorage_Initialize sdk_ok
        (cfg_minio_nil\<lparr>Properties := Some [''endpoint'' \<mapsto> AInt 9000]\<rparr>) (NewMinIOStorage sys0)
      = MinIOStorage_Initialize sdk_ok
        (cfg_minio_nil\<lparr>Properties := Some Map.empty\<rparr>) (NewMinIOStorage sys0)
   \<and> fst (MinIOStorage_Initialize sdk_ok
        (cfg_minio_nil\<lparr>Properties := Some [''endpoint'' \<mapsto> AInt 9000]\<rparr>) (NewMinIOStorage sys0))
      = Returns None
   \<and> S3Config.Endpoint (S3Config_merge
        (cfg_minio_nil\<lparr>Properties := Some [''endpoint'' \<mapsto> AInt 9000]\<rparr>)) = ''localhost:9000''
   \<and> ''useSSL'' \<in> set S3_bool_keys \<and> \<not> is_bool (AString ''true'')
   \<and> UseSSL (S3Config_merge
        (cfg_minio_nil\<lparr>Properties := Some [''useSSL'' \<mapsto> AString ''true'']\<rparr>)) = False
   \<and> ''accountName'' \<in> set Azure_string_keys \<and> \<not> is_string (AInt 42)
   \<and> AzureStorage_Initialize sdk_ok
        (cfg_azure_acct\<lparr>Properties := Some [''accountName'' \<mapsto> AInt 42]\<rparr>) (NewAzureStorage sys0)
      = AzureStorage_Initialize sdk_ok
        (cfg_azure_acct\<lparr>Properties := Some Map.empty\<rparr>) (NewAzureStorage sys0)
   \<and> AccountName (AzureConfig_merge
        (cfg_azure_acct\<lparr>Properties := Some [''accountName'' \<mapsto> AInt 42]\<rparr>)) = ''''"
proof -
  have k: "''endpoint'' \<in> set S3_string_keys \<and> \<not> is_string (AInt 9000)
      \<and> ''useSSL'' \<in> set S3_bool_keys \<and> \<not> is_bool (AString ''true'')
      \<and> ''accountName'' \<in> set Azure_string_keys \<and> \<not> is_string (AInt 42)"
    by (simp add: S3_string_keys_def S3_bool_keys_def Azure_string_keys_def)
  note m = mistyped_property_ignored [where k = "''endpoint''" and v = "AInt 9000"
      and w = sdk_ok and cfg = cfg_minio_nil and props = Map.empty
      and minst = "NewMinIOStorage sys0"]
  note a = mistyped_property_ignored [where k = "''accountName''" and v = "AInt 42"
      and w = sdk_ok and cfg = cfg_azure_acct and props = Map.empty
      and ainst = "NewAzureStorage sys0"]
  have m1: "MinIOStorage_Initialize sdk_ok
        (cfg_minio_nil\<lparr>Properties := Some [''endpoint'' \<mapsto> AInt 9000]\<rparr>) (NewMinIOStorage sys0)
      = MinIOStorage_Initialize sdk_ok
        (cfg_minio_nil\<lparr>Properties := Some Map.empty\<rparr>) (NewMinIOStorage sys0)"
    using m k by simp
  have a1: "AzureStorage_Initialize sdk_ok
        (cfg_azure_acct\<lparr>Properties := Some [''accountName'' \<mapsto> AInt 42]\<rparr>) (NewAzureStorage sys0)
      = AzureStorage_Initialize sdk_ok
        (cfg_azure_acct\<lparr>Properties := Some Map.empty\<rparr>) (NewAzureStorage sys0)"
    using a k by simp
  have m2: "fst (MinIOStorage_Initialize sdk_ok
        (cfg_minio_nil\<lparr>Properties := Some Map.empty\<rparr>) (NewMinIOStorage sys0)) = Returns None"
    by (simp add: run_defs)
  have m3: "S3Config.Endpoint (S3Config_merge
        (cfg_minio_nil\<lparr>Properties := Some [''endpoint'' \<mapsto> AInt 9000]\<rparr>)) = ''localhost:9000''
      \<and> UseSSL (S3Config_merge
        (cfg_minio_nil\<lparr>Properties := Some [''useSSL'' \<mapsto> AString ''true'']\<rparr>)) = False"
    by (simp add: run_defs)
  have a3: "AccountName (AzureConfig_merge
        (cfg_azure_acct\<lparr>Properties := Some [''accountName'' \<mapsto> AInt 42]\<rparr>)) = ''''"
    by (simp add: run_defs)
  from k m1 m2 m3 a1 a3 show ?thesis by simp
qed











end
